theory Spec2Isabelle
  imports Main "HOL-Library.Sublist"
begin

section \<open>Query Segmenter: \<open>GitHubRepoMiner.create_segmented_queries\<close>\<close>

text \<open>
  Python's \<open>str\<close> of an unbounded integer, as the f-strings of the source format a year:
  decimal digits, a leading minus sign for a negative number, no padding.
\<close>

fun str_nat :: "nat \<Rightarrow> string" where
  "str_nat n = (if n < 10 then [char_of (48 + n)]
                else str_nat (n div 10) @ [char_of (48 + n mod 10)])"

declare str_nat.simps [simp del]

definition str_int :: "int \<Rightarrow> string" where
  "str_int i = (if i < 0 then ''-'' @ str_nat (nat (- i)) else str_nat (nat i))"

definition base_query :: string where
  "base_query = ''language:python''"

definition star_ranges :: "string list" where
  "star_ranges =
     [''stars:0..10'', ''stars:11..50'', ''stars:51..100'', ''stars:101..500'',
      ''stars:501..1000'', ''stars:1001..5000'', ''stars:5001..10000'', ''stars:>10000'']"

text \<open>\<open>years = list(range(current_year - 10, current_year + 1))\<close>: eleven years.\<close>

definition years :: "int \<Rightarrow> int list" where
  "years current_year = [current_year - 10 .. current_year]"

text \<open>
  The loop \<open>for i in range(len(years) - 1)\<close> reads \<open>years[i]\<close> and \<open>years[i+1]\<close>, both in
  range. \<open>created_bounds\<close> is the list of the pairs it reads, \<open>created_range\<close> the filter
  text the f-string makes of one pair.
\<close>

definition created_bounds :: "int \<Rightarrow> (int \<times> int) list" where
  "created_bounds current_year =
     map (\<lambda>i. (years current_year ! i, years current_year ! (i + 1)))
       [0 ..< length (years current_year) - 1]"

definition created_range :: "int \<times> int \<Rightarrow> string" where
  "created_range b =
     ''created:'' @ str_int (fst b) @ ''-01-01..'' @ str_int (snd b) @ ''-01-01''"

text \<open>The body of \<open>for star_range in star_ranges\<close>: the queries one star range appends.\<close>

definition star_range_queries :: "int \<Rightarrow> string \<Rightarrow> string list" where
  "star_range_queries current_year star_range =
     (base_query @ '' '' @ star_range) #
     map (\<lambda>b. base_query @ '' '' @ star_range @ '' '' @ created_range b)
       (created_bounds current_year)"

definition size_ranges :: "string list" where
  "size_ranges = [''size:<1000'', ''size:1000..5000'', ''size:>5000'']"

text \<open>
  \<open>years[-2]\<close> is the element before the last; the list has eleven elements, so the index
  \<open>length - 2\<close> is in range. \<open>datetime.now().year\<close> is the parameter \<open>current_year\<close>.
\<close>

definition create_segmented_queries :: "int \<Rightarrow> string list" where
  "create_segmented_queries current_year =
     concat (map (star_range_queries current_year) star_ranges)
     @ [base_query @ '' created:>''
          @ str_int (years current_year ! (length (years current_year) - 2)) @ ''-01-01'']
     @ map (\<lambda>size_range. base_query @ '' '' @ size_range) size_ranges"

text \<open>
  What a creation-date filter \<open>created:A-01-01..B-01-01\<close> selects. The range syntax
  \<open>lo..hi\<close> of the provider includes both ends: the star ranges of the same function rely
  on it (\<open>0..10\<close> is followed by \<open>11..50\<close>, \<open>51..100\<close> and so on, each starting one above
  the end of the one before). A date is a triple (year, month, day), ordered as a calendar
  orders it.
\<close>

type_synonym date = "int \<times> nat \<times> nat"

definition date_le :: "date \<Rightarrow> date \<Rightarrow> bool" where
  "date_le d e =
     (fst d < fst e \<or>
      (fst d = fst e \<and>
        (fst (snd d) < fst (snd e) \<or>
         (fst (snd d) = fst (snd e) \<and> snd (snd d) \<le> snd (snd e)))))"

definition created_matches :: "int \<times> int \<Rightarrow> date \<Rightarrow> bool" where
  "created_matches b d = (date_le (fst b, 1, 1) d \<and> date_le d (snd b, 1, 1))"

section \<open>Python values, errors and the provider\<close>

text \<open>
  Every exception the modelled code can raise is a value; a function that can raise
  returns \<open>error + 'a\<close>, \<open>Inl\<close> carrying the exception. Nothing in the source catches an
  exception except the \<open>try\<close> of \<open>check_file_content_for_text\<close>, so an \<open>Inl\<close> travels
  unchanged to the caller.
\<close>

datatype error =
    ConnectionError
  | JSONDecodeError
  | KeyError
  | TypeError
  | ValueError
  | AttributeError
  | BinasciiError
  | UnicodeDecodeError

definition bind_err :: "error + 'a \<Rightarrow> ('a \<Rightarrow> error + 'b) \<Rightarrow> error + 'b" where
  "bind_err x f = (case x of Inl e \<Rightarrow> Inl e | Inr v \<Rightarrow> f v)"

text \<open>
  A parsed JSON document, as \<open>response.json()\<close> returns it. Numbers are integers (the
  provider sends no fractional number in the fields read here); an object is the list of
  its items, keys distinct.
\<close>

datatype json =
    JNull
  | JBool bool
  | JInt int
  | JStr string
  | JArr "json list"
  | JObj "(string \<times> json) list"

text \<open>\<open>data[key]\<close> with a string key: only a dict can be read this way.\<close>

fun subscript :: "json \<Rightarrow> string \<Rightarrow> error + json" where
  "subscript (JObj kvs) key = (case map_of kvs key of None \<Rightarrow> Inl KeyError | Some v \<Rightarrow> Inr v)"
| "subscript _ key = Inl TypeError"

text \<open>\<open>data.get(key, default)\<close>: a method of dict only.\<close>

fun py_get :: "json \<Rightarrow> string \<Rightarrow> json \<Rightarrow> error + json" where
  "py_get (JObj kvs) key dflt = (case map_of kvs key of None \<Rightarrow> Inr dflt | Some v \<Rightarrow> Inr v)"
| "py_get _ key dflt = Inl AttributeError"

text \<open>Python's \<open>needle in haystack\<close> on strings: a contiguous occurrence.\<close>

fun py_in :: "string \<Rightarrow> string \<Rightarrow> bool" where
  "py_in needle [] = (needle = [])"
| "py_in needle (c # cs) = (prefix needle (c # cs) \<or> py_in needle cs)"

text \<open>
  \<open>key in data\<close> for a string key: a key of a dict, an element of a list, a substring of a
  string; any other value is not iterable.
\<close>

fun py_contains :: "string \<Rightarrow> json \<Rightarrow> error + bool" where
  "py_contains key (JObj kvs) = Inr (map_of kvs key \<noteq> None)"
| "py_contains key (JArr xs) = Inr (List.member xs (JStr key))"
| "py_contains key (JStr s) = Inr (py_in key s)"
| "py_contains key _ = Inl TypeError"

text \<open>
  A value used as a number (\<open>x < 5\<close>, \<open>x - t + 10\<close>): \<open>bool\<close> is a subclass of \<open>int\<close> in
  Python, everything else that is not a number raises \<open>TypeError\<close>.
\<close>

fun as_int :: "json \<Rightarrow> error + int" where
  "as_int (JInt n) = Inr n"
| "as_int (JBool b) = Inr (if b then 1 else 0)"
| "as_int _ = Inl TypeError"

text \<open>
  A value used where the provider's schema has a string (a repository's \<open>full_name\<close>, a
  file's \<open>path\<close>). The model stops with \<open>TypeError\<close> on any other JSON value; Python would
  format it into a URL and go on with a name that is no repository name.
\<close>

fun as_str :: "json \<Rightarrow> error + string" where
  "as_str (JStr s) = Inr s"
| "as_str _ = Inl TypeError"

text \<open>
  An HTTP response as the code reads it: the status, the body as text (\<open>response.text\<close>), the body parsed
  (\<open>None\<close> when it is not JSON, where \<open>response.json()\<close> raises), and the two rate-limit
  headers (\<open>None\<close> when absent; a header that is present holds a decimal integer).
\<close>

record response =
  status_code :: int
  body_text :: string
  json_body :: "json option"
  x_ratelimit_remaining :: "int option"
  x_ratelimit_reset :: "int option"

definition json_of :: "response \<Rightarrow> error + json" where
  "json_of r = (case json_body r of None \<Rightarrow> Inl JSONDecodeError | Some d \<Rightarrow> Inr d)"

text \<open>\<open>int(response.headers.get(name, 0))\<close>.\<close>

definition header_int :: "int option \<Rightarrow> int" where
  "header_int h = (case h of None \<Rightarrow> 0 | Some n \<Rightarrow> n)"

text \<open>
  The provider is a script: what each successive \<open>requests.get\<close> meets, a transport failure
  (the call raises) or a response. The code is sequential, so every behaviour of a
  provider, also one that answers according to what it was asked, is one such script.
  A script that has run out is a provider that no longer answers.
\<close>

datatype reply = Transport_error | Reply response

record request =
  req_url :: string
  req_params :: "(string \<times> string) list"

text \<open>
  The state of a \<open>GitHubRepoMiner\<close> and of the world around it: the field
  \<open>rate_limit_remaining\<close>, the clock \<open>int(time.time())\<close> reads, the rest of the provider's
  script, and what the object has done so far: the requests sent, the durations slept
  and the files written under \<open>output/\<close>. A request takes no time; \<open>time.sleep(d)\<close>
  advances the clock by \<open>d\<close>.
\<close>

record miner =
  rate_limit_remaining :: int
  clock :: int
  tape :: "reply list"
  sent :: "request list"
  sleeps :: "int list"
  saved :: "(string \<times> json) list"

definition init_miner :: "int \<Rightarrow> reply list \<Rightarrow> miner" where
  "init_miner now script =
     \<lparr>rate_limit_remaining = 1000, clock = now, tape = script, sent = [], sleeps = [],
      saved = []\<rparr>"

definition requests_get :: "request \<Rightarrow> miner \<Rightarrow> error + (response \<times> miner)" where
  "requests_get req m =
     (case tape m of
        [] \<Rightarrow> Inl ConnectionError
      | Transport_error # rest \<Rightarrow> Inl ConnectionError
      | Reply r # rest \<Rightarrow> Inr (r, m\<lparr>tape := rest, sent := sent m @ [req]\<rparr>))"

text \<open>\<open>time.sleep\<close> raises \<open>ValueError\<close> on a negative duration.\<close>

definition time_sleep :: "int \<Rightarrow> miner \<Rightarrow> error + miner" where
  "time_sleep d m =
     (if d < 0 then Inl ValueError
      else Inr (m\<lparr>clock := clock m + d, sleeps := sleeps m @ [d]\<rparr>))"

definition base_url :: string where
  "base_url = ''https://api.github.com''"

section \<open>Rate Governor: \<open>GitHubRepoMiner.check_rate_limit\<close>\<close>

text \<open>
  The value of \<open>data["rate"]["remaining"]\<close> is stored in the field and compared with 5 two
  lines later; \<open>as_int\<close> is that comparison's type check, made after both subscripts as in
  the source. \<open>reset_time\<close> is used as a number only when the wait is computed.
\<close>

definition check_rate_limit :: "miner \<Rightarrow> error + miner" where
  "check_rate_limit m =
     (if rate_limit_remaining m < 10 then
        bind_err (requests_get \<lparr>req_url = base_url @ ''/rate_limit'', req_params = []\<rparr> m)
          (\<lambda>(response, m1).
        bind_err (json_of response) (\<lambda>data.
        bind_err (subscript data ''rate'') (\<lambda>rate.
        bind_err (subscript rate ''remaining'') (\<lambda>remaining.
        bind_err (subscript rate ''reset'') (\<lambda>reset_time.
        bind_err (as_int remaining) (\<lambda>remaining_n.
          let m2 = m1\<lparr>rate_limit_remaining := remaining_n\<rparr> in
          if remaining_n < 5 then
            bind_err (as_int reset_time) (\<lambda>reset_n.
              let wait_time = reset_n - clock m2 + 10 in
              time_sleep wait_time m2)
          else Inr m2))))))
      else Inr m)"

section \<open>Search Client\<close>

subsection \<open>\<open>GitHubRepoMiner.search_python_repos\<close>\<close>

text \<open>
  One request, no retry. On a status other than 200 the body is printed with
  \<open>print(response.json())\<close>, which raises when the body is not JSON, before the empty list
  is returned.
\<close>

definition search_python_repos ::
  "string \<Rightarrow> nat \<Rightarrow> nat \<Rightarrow> miner \<Rightarrow> error + (json \<times> miner)" where
  "search_python_repos query page per_page m =
     bind_err (check_rate_limit m) (\<lambda>m0.
     bind_err (requests_get
         \<lparr>req_url = base_url @ ''/search/repositories'',
          req_params = [(''q'', query), (''sort'', ''stars''), (''order'', ''desc''),
                        (''page'', str_nat page), (''per_page'', str_nat per_page)]\<rparr> m0)
       (\<lambda>(response, m1).
         if status_code response \<noteq> 200 then
           bind_err (json_of response) (\<lambda>printed. Inr (JArr [], m1))
         else
           let m2 = m1\<lparr>rate_limit_remaining := header_int (x_ratelimit_remaining response)\<rparr>
           in bind_err (json_of response) (\<lambda>data.
              bind_err (py_get data ''items'' (JArr [])) (\<lambda>items. Inr (items, m2)))))"

subsection \<open>\<open>GitHubRepoMiner.search_specific_files_in_repo\<close>\<close>

definition code_query :: "string \<Rightarrow> string \<Rightarrow> string" where
  "code_query repo_full_name filename =
     (if prefix ''.'' filename
      then ''extension:'' @ drop 1 filename @ '' repo:'' @ repo_full_name
      else ''filename:'' @ filename @ '' repo:'' @ repo_full_name)"

text \<open>\<open>s.replace(a, b)\<close> for single characters \<open>a\<close> and \<open>b\<close>.\<close>

definition replace_char :: "char \<Rightarrow> char \<Rightarrow> string \<Rightarrow> string" where
  "replace_char a b s = map (\<lambda>c. if c = a then b else c) s"

definition output_filename :: "string \<Rightarrow> string \<Rightarrow> string" where
  "output_filename repo_full_name filename =
     ''output/'' @ replace_char (CHR ''/'') (CHR ''_'') repo_full_name @ ''_''
       @ replace_char (CHR ''.'') (CHR ''_'') filename @ ''_search_results.json''"

definition max_retries :: nat where
  "max_retries = 3"

text \<open>
  \<open>datetime.fromtimestamp(reset_time)\<close>, evaluated for the message printed before the
  sleep, raises outside the years 1 to 9999 (the bounds are those of the UTC zone; the
  kind of exception depends on the platform and is \<open>ValueError\<close> here).
\<close>

definition fromtimestamp :: "int \<Rightarrow> error + int" where
  "fromtimestamp t =
     (if - 62135596800 \<le> t \<and> t \<le> 253402300799 then Inr t else Inl ValueError)"

text \<open>
  The loop \<open>for attempt in range(max_retries)\<close>, on the attempts still to run. A status 200
  returns; a status 403 whose body has the marker sleeps and goes to the next attempt; any
  other status prints the parsed body, then sleeps and goes on when the attempt is not the
  last, and returns the empty list when it is. The empty list after the loop is the
  \<open>return []\<close> of its last line. Writing the file under \<open>output/\<close> is taken to succeed.
\<close>

fun search_attempts ::
  "string \<Rightarrow> string \<Rightarrow> nat list \<Rightarrow> miner \<Rightarrow> error + (json \<times> miner)" where
  "search_attempts repo_full_name filename [] m = Inr (JArr [], m)"
| "search_attempts repo_full_name filename (attempt # rest) m =
     bind_err (requests_get
         \<lparr>req_url = base_url @ ''/search/code'',
          req_params = [(''q'', code_query repo_full_name filename),
                        (''per_page'', ''100'')]\<rparr> m)
       (\<lambda>(response, m1).
         if status_code response = 200 then
           (let m2 = m1\<lparr>rate_limit_remaining := header_int (x_ratelimit_remaining response)\<rparr>
            in bind_err (json_of response) (\<lambda>data.
                 let m3 = m2\<lparr>saved := saved m2
                            @ [(output_filename repo_full_name filename, data)]\<rparr>
                 in bind_err (py_get data ''items'' (JArr [])) (\<lambda>items. Inr (items, m3))))
         else if status_code response = 403
                 \<and> py_in ''rate limit exceeded'' (body_text response) then
           (let reset_time = header_int (x_ratelimit_reset response);
                current_time = clock m1;
                wait_time = max (reset_time - current_time + 10) 60
            in bind_err (fromtimestamp reset_time) (\<lambda>printed.
               bind_err (time_sleep wait_time m1) (\<lambda>m2.
                 search_attempts repo_full_name filename rest m2)))
         else
           bind_err (json_of response) (\<lambda>printed.
             if attempt < max_retries - 1 then
               (let wait_time = int ((2 ^ attempt) * 30)
                in bind_err (time_sleep wait_time m1) (\<lambda>m2.
                     search_attempts repo_full_name filename rest m2))
             else Inr (JArr [], m1)))"

definition search_specific_files_in_repo ::
  "string \<Rightarrow> string \<Rightarrow> miner \<Rightarrow> error + (json \<times> miner)" where
  "search_specific_files_in_repo repo_full_name filename m =
     bind_err (check_rate_limit m) (\<lambda>m0.
       search_attempts repo_full_name filename [0 ..< max_retries] m0)"

section \<open>Content Verifier: \<open>GitHubRepoMiner.check_file_content_for_text\<close>\<close>

text \<open>
  A Python string is the list of the bytes of its UTF-8 encoding: an occurrence of one
  well-formed string in another is the same on bytes and on code points. \<open>lower\<close> is
  \<open>str.lower\<close> on the ASCII letters; the case mapping of the other code points is not
  modelled.
\<close>

definition lower_char :: "char \<Rightarrow> char" where
  "lower_char c =
     (let n = (of_char c :: nat) in if 65 \<le> n \<and> n \<le> 90 then char_of (n + 32) else c)"

definition lower :: "string \<Rightarrow> string" where
  "lower s = map lower_char s"

text \<open>
  \<open>base64.b64decode(s)\<close> with its default \<open>validate=False\<close>, that is CPython's
  \<open>binascii.a2b_base64\<close> in its lenient mode, on the codes of the characters: a character
  outside the alphabet is skipped, a pad character ends the input once the quad it pads is
  complete, and input that ends inside a quad raises \<open>binascii.Error\<close>. The arguments
  after the input are the position in the quad, the bits left over, the pads counted and
  the bytes produced.
\<close>

definition b64_value :: "nat \<Rightarrow> nat option" where
  "b64_value c =
     (if 65 \<le> c \<and> c \<le> 90 then Some (c - 65)
      else if 97 \<le> c \<and> c \<le> 122 then Some (c - 71)
      else if 48 \<le> c \<and> c \<le> 57 then Some (c + 4)
      else if c = 43 then Some 62
      else if c = 47 then Some 63
      else None)"

fun a2b_base64 :: "nat list \<Rightarrow> nat \<Rightarrow> nat \<Rightarrow> nat \<Rightarrow> nat list \<Rightarrow> error + nat list" where
  "a2b_base64 [] quad_pos leftchar pad_count out =
     (if quad_pos \<noteq> 0 then Inl BinasciiError else Inr out)"
| "a2b_base64 (c # cs) quad_pos leftchar pad_count out =
     (if c = 61 then
        (if quad_pos \<ge> 2 \<and> quad_pos + (pad_count + 1) \<ge> 4 then Inr out
         else a2b_base64 cs quad_pos leftchar
                (if quad_pos \<ge> 2 then pad_count + 1 else pad_count) out)
      else
        (case b64_value c of
           None \<Rightarrow> a2b_base64 cs quad_pos leftchar pad_count out
         | Some v \<Rightarrow>
             (if quad_pos = 0 then a2b_base64 cs 1 v 0 out
              else if quad_pos = 1 then
                a2b_base64 cs 2 (v mod 16) 0 (out @ [leftchar * 4 + v div 16])
              else if quad_pos = 2 then
                a2b_base64 cs 3 (v mod 4) 0 (out @ [leftchar * 16 + v div 4])
              else a2b_base64 cs 0 0 0 (out @ [leftchar * 64 + v]))))"

text \<open>
  The argument of \<open>b64decode\<close> must be a string of ASCII characters: another string raises
  \<open>ValueError\<close>, a value that is no string \<open>TypeError\<close>.
\<close>

fun b64decode :: "json \<Rightarrow> error + nat list" where
  "b64decode (JStr s) =
     (if list_all (\<lambda>c. (of_char c :: nat) < 128) s
      then a2b_base64 (map of_char s) 0 0 0 []
      else Inl ValueError)"
| "b64decode _ = Inl TypeError"

text \<open>
  \<open>bytes.decode("utf-8")\<close>: the bytes must be well-formed UTF-8 (no overlong form, no
  surrogate, nothing above U+10FFFF).
\<close>

definition cont_byte :: "nat \<Rightarrow> bool" where
  "cont_byte b = (128 \<le> b \<and> b \<le> 191)"

fun utf8_ok :: "nat list \<Rightarrow> bool" where
  "utf8_ok [] = True"
| "utf8_ok (b # bs) =
     (if b < 128 then utf8_ok bs
      else if 194 \<le> b \<and> b \<le> 223 then
        (case bs of b1 # r \<Rightarrow> cont_byte b1 \<and> utf8_ok r | _ \<Rightarrow> False)
      else if 224 \<le> b \<and> b \<le> 239 then
        (case bs of
           b1 # b2 # r \<Rightarrow>
             cont_byte b1 \<and> cont_byte b2
             \<and> (b = 224 \<longrightarrow> 160 \<le> b1) \<and> (b = 237 \<longrightarrow> b1 \<le> 159) \<and> utf8_ok r
         | _ \<Rightarrow> False)
      else if 240 \<le> b \<and> b \<le> 244 then
        (case bs of
           b1 # b2 # b3 # r \<Rightarrow>
             cont_byte b1 \<and> cont_byte b2 \<and> cont_byte b3
             \<and> (b = 240 \<longrightarrow> 144 \<le> b1) \<and> (b = 244 \<longrightarrow> b1 \<le> 143) \<and> utf8_ok r
         | _ \<Rightarrow> False)
      else False)"

definition utf8_decode :: "nat list \<Rightarrow> error + string" where
  "utf8_decode bs = (if utf8_ok bs then Inr (map char_of bs) else Inl UnicodeDecodeError)"

text \<open>The body of the \<open>try\<close>; \<open>except Exception\<close> turns every exception in it into False.\<close>

definition decode_and_search :: "json \<Rightarrow> string \<Rightarrow> error + bool" where
  "decode_and_search data search_text =
     bind_err (subscript data ''content'') (\<lambda>encoded.
     bind_err (b64decode encoded) (\<lambda>bytes.
     bind_err (utf8_decode bytes) (\<lambda>content.
       Inr (py_in (lower search_text) (lower content)))))"

definition check_file_content_for_text ::
  "string \<Rightarrow> string \<Rightarrow> string \<Rightarrow> miner \<Rightarrow> error + (bool \<times> miner)" where
  "check_file_content_for_text repo_full_name file_path search_text m =
     bind_err (check_rate_limit m) (\<lambda>m0.
     bind_err (requests_get
         \<lparr>req_url = base_url @ ''/repos/'' @ repo_full_name @ ''/contents/'' @ file_path,
          req_params = []\<rparr> m0)
       (\<lambda>(response, m1).
         if status_code response \<noteq> 200 then Inr (False, m1)
         else
           let m2 = m1\<lparr>rate_limit_remaining := header_int (x_ratelimit_remaining response)\<rparr>
           in bind_err (json_of response) (\<lambda>data.
              bind_err (py_contains ''content'' data) (\<lambda>has_content.
                if \<not> has_content then Inr (False, m2)
                else Inr (case decode_and_search data search_text of
                            Inl e \<Rightarrow> False | Inr found \<Rightarrow> found, m2)))))"

section \<open>Crawl Orchestrator: \<open>GitHubRepoMiner.find_repos_with_criteria_segmented\<close>\<close>

record file_match =
  name :: json
  path :: string
  url :: json

record repo_data =
  repo_url :: json
  stars :: json
  description :: json
  requirements_with_transitions :: "file_match list"
  yml_with_transitions :: "file_match list"

text \<open>The two lists of a \<open>repo_data\<close> a match can be appended to.\<close>

datatype category = Requirements | Yml

definition append_match :: "category \<Rightarrow> file_match \<Rightarrow> repo_data \<Rightarrow> repo_data" where
  "append_match cat fm rd =
     (case cat of
        Requirements \<Rightarrow>
          rd\<lparr>requirements_with_transitions := requirements_with_transitions rd @ [fm]\<rparr>
      | Yml \<Rightarrow> rd\<lparr>yml_with_transitions := yml_with_transitions rd @ [fm]\<rparr>)"

text \<open>
  The trace of a run lists, in order, the two actions of the loop body: \<open>Examined r\<close> where
  the source executes \<open>repos_checked += 1\<close> for the repository \<open>r\<close> (and prints
  \<open>Verificando r\<close>), \<open>Recorded r cat fm\<close> where it appends the match \<open>fm\<close> to a list of
  the \<open>repo_data\<close> of \<open>r\<close>.
\<close>

datatype event = Examined string | Recorded string category file_match

text \<open>
  The variables of one run: the dict \<open>results\<close> as the list of its items in insertion
  order, the counter, the trace, and the miner with the world.
\<close>

record crawl =
  results :: "(string \<times> repo_data) list"
  repos_checked :: int
  trace :: "event list"
  world :: miner

text \<open>Truth value of a JSON value, as \<open>if not repos\<close> takes it.\<close>

fun py_truthy :: "json \<Rightarrow> bool" where
  "py_truthy JNull = False"
| "py_truthy (JBool b) = b"
| "py_truthy (JInt n) = (n \<noteq> 0)"
| "py_truthy (JStr s) = (s \<noteq> [])"
| "py_truthy (JArr xs) = (xs \<noteq> [])"
| "py_truthy (JObj kvs) = (kvs \<noteq> [])"

text \<open>
  The elements a \<open>for\<close> loop draws from a JSON value: those of a list, the keys of a dict,
  the characters of a string (here one per byte; the loop bodies below raise on the first
  of them whatever their number); any other value is not iterable.
\<close>

fun iter_json :: "json \<Rightarrow> error + json list" where
  "iter_json (JArr xs) = Inr xs"
| "iter_json (JObj kvs) = Inr (map (\<lambda>kv. JStr (fst kv)) kvs)"
| "iter_json (JStr s) = Inr (map (\<lambda>c. JStr [c]) s)"
| "iter_json _ = Inl TypeError"

text \<open>
  One of the three loops \<open>for req_file in req_files\<close>: each candidate file is verified,
  and a verified one is appended to the list \<open>cat\<close> of the \<open>repo_data\<close> and sets
  \<open>found_relevant_content\<close>. The state is the \<open>repo_data\<close>, the flag and the run.
\<close>

fun scan_files ::
  "string \<Rightarrow> category \<Rightarrow> json list \<Rightarrow> repo_data \<times> bool \<times> crawl
     \<Rightarrow> error + (repo_data \<times> bool \<times> crawl)" where
  "scan_files repo_name cat [] st = Inr st"
| "scan_files repo_name cat (f # fs) (rd, found_relevant_content, c) =
     bind_err (subscript f ''path'') (\<lambda>path_value.
     bind_err (as_str path_value) (\<lambda>file_path.
     bind_err (check_file_content_for_text repo_name file_path ''transitions'' (world c))
       (\<lambda>(hit, w).
         if hit then
           bind_err (subscript f ''name'') (\<lambda>file_name.
           bind_err (subscript f ''html_url'') (\<lambda>file_url.
             let fm = \<lparr>name = file_name, path = file_path, url = file_url\<rparr>
             in scan_files repo_name cat fs
                  (append_match cat fm rd, True,
                   c\<lparr>trace := trace c @ [Recorded repo_name cat fm], world := w\<rparr>)))
         else scan_files repo_name cat fs (rd, found_relevant_content, c\<lparr>world := w\<rparr>))))"

text \<open>One manifest pattern: the code search, then the loop over what it returned.\<close>

definition scan_pattern ::
  "string \<Rightarrow> string \<Rightarrow> category \<Rightarrow> repo_data \<times> bool \<times> crawl
     \<Rightarrow> error + (repo_data \<times> bool \<times> crawl)" where
  "scan_pattern repo_name filename cat st =
     (case st of (rd, found_relevant_content, c) \<Rightarrow>
        bind_err (search_specific_files_in_repo repo_name filename (world c)) (\<lambda>(files, w).
        bind_err (iter_json files) (\<lambda>file_list.
          scan_files repo_name cat file_list (rd, found_relevant_content, c\<lparr>world := w\<rparr>))))"

text \<open>
  The body of \<open>for repo in repos\<close> after the test of the counter: a repository whose name
  is a key of \<open>results\<close> is skipped; any other is counted, its three manifest patterns are
  searched, and it is inserted when the flag is set.
\<close>

definition process_repo :: "json \<Rightarrow> crawl \<Rightarrow> error + crawl" where
  "process_repo repo c =
     bind_err (subscript repo ''full_name'') (\<lambda>name_value.
     bind_err (as_str name_value) (\<lambda>repo_name.
       if List.member (map fst (results c)) repo_name then Inr c
       else
         let c1 = c\<lparr>repos_checked := repos_checked c + 1,
                    trace := trace c @ [Examined repo_name]\<rparr>
         in bind_err (subscript repo ''html_url'') (\<lambda>repo_html_url.
            bind_err (subscript repo ''stargazers_count'') (\<lambda>stargazers_count.
            bind_err (subscript repo ''description'') (\<lambda>repo_description.
              let rd = \<lparr>repo_url = repo_html_url, stars = stargazers_count,
                        description = repo_description,
                        requirements_with_transitions = [], yml_with_transitions = []\<rparr>
              in bind_err (scan_pattern repo_name ''requirements.txt'' Requirements
                             (rd, False, c1)) (\<lambda>st1.
                 bind_err (scan_pattern repo_name ''.yml'' Yml st1) (\<lambda>st2.
                 bind_err (scan_pattern repo_name ''pyproject.toml'' Requirements st2)
                   (\<lambda>(rd3, found_relevant_content, c3).
                     if found_relevant_content
                     then Inr (c3\<lparr>results := results c3 @ [(repo_name, rd3)]\<rparr>)
                     else Inr c3))))))))"

fun repos_loop :: "int \<Rightarrow> json list \<Rightarrow> crawl \<Rightarrow> error + crawl" where
  "repos_loop max_repos [] c = Inr c"
| "repos_loop max_repos (repo # rest) c =
     (if repos_checked c \<ge> max_repos then Inr c
      else bind_err (process_repo repo c) (repos_loop max_repos rest))"

lemma bind_err_cong [fundef_cong]:
  "x = y \<Longrightarrow> (\<And>v. y = Inr v \<Longrightarrow> f v = g v) \<Longrightarrow> bind_err x f = bind_err y g"
  by (simp add: bind_err_def split: sum.splits)

text \<open>
  The loop \<open>while repos_checked < max_repos\<close> of one query, from the page \<open>page\<close>. It ends
  on an empty page, on a page of fewer than 10 items, and once the page number has passed
  30, so it runs at most 30 times.
\<close>

function pages_loop :: "int \<Rightarrow> string \<Rightarrow> nat \<Rightarrow> crawl \<Rightarrow> error + crawl" where
  "pages_loop max_repos query page c =
     (if repos_checked c < max_repos then
        bind_err (search_python_repos query page 30 (world c)) (\<lambda>(repos, w).
          if \<not> py_truthy repos then Inr (c\<lparr>world := w\<rparr>)
          else
            bind_err (iter_json repos) (\<lambda>repo_list.
            bind_err (repos_loop max_repos repo_list (c\<lparr>world := w\<rparr>)) (\<lambda>c2.
              if length repo_list < 10 then Inr c2
              else if page + 1 > 30 then Inr c2
              else pages_loop max_repos query (page + 1) c2)))
      else Inr c)"
  by pat_completeness auto
termination
  by (relation "measure (\<lambda>(max_repos, query, page, c). 31 - page)") auto

declare pages_loop.simps [simp del]

fun queries_loop :: "int \<Rightarrow> string list \<Rightarrow> crawl \<Rightarrow> error + crawl" where
  "queries_loop max_repos [] c = Inr c"
| "queries_loop max_repos (query # rest) c =
     (if repos_checked c \<ge> max_repos then Inr c
      else bind_err (pages_loop max_repos query 1 c) (queries_loop max_repos rest))"

text \<open>
  The run: the year is what \<open>datetime.now().year\<close> returns, the miner carries the world.
  The source returns \<open>results\<close>; the model returns the final state, of which \<open>results\<close> is
  a field.
\<close>

definition find_repos_with_criteria_segmented :: "int \<Rightarrow> int \<Rightarrow> miner \<Rightarrow> error + crawl" where
  "find_repos_with_criteria_segmented current_year max_repos m =
     queries_loop max_repos (create_segmented_queries current_year)
       \<lparr>results = [], repos_checked = 0, trace = [], world = m\<rparr>"

section \<open>Conditions of the claims and example worlds\<close>

text \<open>
  The quota-status request of \<open>check_rate_limit\<close> succeeds when the provider answers and
  both \<open>data["rate"]["remaining"]\<close> and \<open>data["rate"]["reset"]\<close> can be read from the
  answer; it fails on a transport error and on any other answer.
\<close>

definition quota_readable :: "miner \<Rightarrow> bool" where
  "quota_readable m =
     (case tape m of
        Reply r # rest \<Rightarrow>
          (case json_body r of
             Some data \<Rightarrow>
               (case subscript data ''rate'' of
                  Inr rate \<Rightarrow>
                    (case subscript rate ''remaining'' of
                       Inr remaining \<Rightarrow>
                         (case subscript rate ''reset'' of
                            Inr reset_time \<Rightarrow> True
                          | Inl e \<Rightarrow> False)
                     | Inl e \<Rightarrow> False)
                | Inl e \<Rightarrow> False)
           | None \<Rightarrow> False)
      | _ \<Rightarrow> False)"

text \<open>A response with a JSON body and no rate-limit header; the body of a quota answer.\<close>

definition json_response :: "int \<Rightarrow> json \<Rightarrow> response" where
  "json_response status j =
     \<lparr>status_code = status, body_text = [], json_body = Some j,
      x_ratelimit_remaining = None, x_ratelimit_reset = None\<rparr>"

definition rate_payload :: "int \<Rightarrow> int \<Rightarrow> json" where
  "rate_payload remaining reset_time =
     JObj [(''rate'', JObj [(''remaining'', JInt remaining), (''reset'', JInt reset_time)])]"

text \<open>A miner whose last known quota is 3, at the time \<open>now\<close>, before the script \<open>script\<close>.\<close>

definition low_miner :: "int \<Rightarrow> reply list \<Rightarrow> miner" where
  "low_miner now script =
     \<lparr>rate_limit_remaining = 3, clock = now, tape = script, sent = [], sleeps = [],
      saved = []\<rparr>"

section \<open>Properties of the Query Segmenter\<close>

lemma length_years: "length (years current_year) = 11"
  by (simp add: years_def)

lemma length_created_bounds: "length (created_bounds current_year) = 10"
  by (simp add: created_bounds_def length_years)

lemma length_star_range_queries: "length (star_range_queries current_year s) = 11"
  by (simp add: star_range_queries_def length_created_bounds)

text \<open>
  C1. The Query Segmenter is a function of the current year alone, and for every year the
  list it returns has exactly 8 + 8 * 10 + 1 + 3 = 92 queries; so it is finite and not
  empty.
\<close>

theorem create_segmented_queries_length:
  "length (create_segmented_queries current_year) = 8 + 8 * 10 + 1 + 3
   \<and> length (create_segmented_queries current_year) = 92
   \<and> create_segmented_queries current_year \<noteq> []"
  by (simp add: create_segmented_queries_def star_ranges_def size_ranges_def
      length_star_range_queries)

text \<open>
  C8 (the code at the input that breaks the claim). In the year 2024 the segmenter
  generates the filters \<open>created:2014-01-01..2015-01-01\<close> and
  \<open>created:2015-01-01..2016-01-01\<close>: two different filters, and the first of January 2015
  satisfies both, since each range ends on the day the next one starts.
\<close>

theorem created_ranges_share_boundary_day:
  "(2014, 2015) \<in> set (created_bounds 2024)
   \<and> (2015, 2016) \<in> set (created_bounds 2024)
   \<and> created_range (2014, 2015) = ''created:2014-01-01..2015-01-01''
   \<and> created_range (2015, 2016) = ''created:2015-01-01..2016-01-01''
   \<and> created_matches (2014, 2015) (2015, 1, 1)
   \<and> created_matches (2015, 2016) (2015, 1, 1)"
  by code_simp

section \<open>Properties of the Rate Governor\<close>

lemma bind_err_Inr [simp]: "bind_err (Inr v) f = f v"
  by (simp add: bind_err_def)

lemma bind_err_Inl [simp]: "bind_err (Inl e) f = Inl e"
  by (simp add: bind_err_def)

lemma bind_err_eq_Inr: "bind_err x f = Inr y \<longleftrightarrow> (\<exists>v. x = Inr v \<and> f v = Inr y)"
  by (cases x) simp_all

text \<open>
  C4 as stated fails: with a last known quota of 5 and a provider that cannot be reached,
  \<open>check_rate_limit\<close> raises the transport error instead of returning.
\<close>

theorem check_rate_limit_transport_error_raises:
  "check_rate_limit
     \<lparr>rate_limit_remaining = 5, clock = 0, tape = [Transport_error], sent = [],
      sleeps = [], saved = []\<rparr> = Inl ConnectionError"
  by (simp add: check_rate_limit_def requests_get_def)

text \<open>
  C4 as amended. Whenever the last known quota is below 10 and the quota-status request
  fails (a transport error, or an answer from which the remaining quota and the reset time
  cannot be read), \<open>check_rate_limit\<close> raises: nothing in it catches the failure.
\<close>

theorem check_rate_limit_failure_propagates:
  assumes "rate_limit_remaining m < 10" and "\<not> quota_readable m"
  shows "\<exists>e. check_rate_limit m = Inl e"
  using assms
  by (auto simp: check_rate_limit_def quota_readable_def requests_get_def json_of_def
      split: list.splits reply.splits option.splits sum.splits)

theorem check_rate_limit_failure_propagates_witness:
  "rate_limit_remaining (low_miner 0 [Reply (json_response 200 (JObj []))]) < 10
   \<and> \<not> quota_readable (low_miner 0 [Reply (json_response 200 (JObj []))])
   \<and> (\<exists>e. check_rate_limit (low_miner 0 [Reply (json_response 200 (JObj []))]) = Inl e)"
proof -
  have low: "rate_limit_remaining (low_miner 0 [Reply (json_response 200 (JObj []))]) < 10"
    by (simp add: low_miner_def)
  have unreadable: "\<not> quota_readable (low_miner 0 [Reply (json_response 200 (JObj []))])"
    by (simp add: quota_readable_def low_miner_def json_response_def)
  from check_rate_limit_failure_propagates [OF low unreadable] low unreadable
  show ?thesis by blast
qed

text \<open>
  C5. When the last known quota is below 10 and the refreshed quota is below 5, with the
  reset time \<open>T\<close>, the sleep requested is \<open>T - now + 10\<close> seconds: every normal return of
  \<open>check_rate_limit\<close> comes after a sleep of that length, and when that length is not
  negative the call does return normally.
\<close>

theorem check_rate_limit_blocks:
  assumes "rate_limit_remaining m < 10"
    and "tape m = Reply r # rest"
    and "json_body r = Some data"
    and "subscript data ''rate'' = Inr rate"
    and "subscript rate ''remaining'' = Inr (JInt remaining)"
    and "subscript rate ''reset'' = Inr (JInt T)"
    and "remaining < 5"
  shows "(0 \<le> T - clock m + 10 \<longrightarrow>
            (\<exists>m'. check_rate_limit m = Inr m' \<and> clock m' = clock m + (T - clock m + 10)
                   \<and> sleeps m' = sleeps m @ [T - clock m + 10]))
         \<and> (\<forall>m'. check_rate_limit m = Inr m' \<longrightarrow>
               clock m' - clock m \<ge> T - clock m + 10
               \<and> sleeps m' = sleeps m @ [T - clock m + 10])"
  using assms
  by (auto simp: check_rate_limit_def requests_get_def json_of_def time_sleep_def Let_def
      split: if_splits)

theorem check_rate_limit_blocks_witness:
  "\<exists>m'. check_rate_limit (low_miner 1000 [Reply (json_response 200 (rate_payload 2 1060))])
           = Inr m'
        \<and> clock m' = 1070 \<and> sleeps m' = [70]"
  using check_rate_limit_blocks
    [of "low_miner 1000 [Reply (json_response 200 (rate_payload 2 1060))]"
        "json_response 200 (rate_payload 2 1060)" "[]" "rate_payload 2 1060"
        "JObj [(''remaining'', JInt 2), (''reset'', JInt 1060)]" 2 1060]
  by (simp add: low_miner_def json_response_def rate_payload_def)

text \<open>
  C10. When the refreshed quota is below 5 and the reset time lies more than 10 seconds in
  the past, the wait \<open>reset - now + 10\<close> is negative, it is passed to \<open>time.sleep\<close> as it
  is, and the call raises \<open>ValueError\<close> instead of proceeding.
\<close>

theorem check_rate_limit_negative_wait_raises:
  assumes "rate_limit_remaining m < 10"
    and "tape m = Reply r # rest"
    and "json_body r = Some data"
    and "subscript data ''rate'' = Inr rate"
    and "subscript rate ''remaining'' = Inr (JInt remaining)"
    and "subscript rate ''reset'' = Inr (JInt T)"
    and "remaining < 5"
    and "T - clock m + 10 < 0"
  shows "check_rate_limit m = Inl ValueError"
  using assms
  by (simp add: check_rate_limit_def requests_get_def json_of_def time_sleep_def)

theorem check_rate_limit_negative_wait_raises_witness:
  "check_rate_limit (low_miner 1000 [Reply (json_response 200 (rate_payload 2 900))])
     = Inl ValueError"
  using check_rate_limit_negative_wait_raises
    [of "low_miner 1000 [Reply (json_response 200 (rate_payload 2 900))]"
        "json_response 200 (rate_payload 2 900)" "[]" "rate_payload 2 900"
        "JObj [(''remaining'', JInt 2), (''reset'', JInt 900)]" 2 900]
  by (simp add: low_miner_def json_response_def rate_payload_def)

end
